theory Spec2Isabelle
  imports Complex_Main "HOL-Library.AList" "HOL-Library.Multiset"
begin

section \<open>Python values, errors and the outside world\<close>

text \<open>
  The values that \<open>response.json()\<close> decodes to, as Python sees them: \<open>None\<close>, booleans,
  integers, strings, lists and dictionaries (insertion ordered, so association lists).
  \<open>ObjectId\<close> is the store-internal identifier that \<open>utils.JSONEncoder\<close> knows about.
  Floating point numbers are left out.
\<close>

datatype pyval =
    PyNone
  | PyBool bool
  | PyInt int
  | PyStr string
  | PyList "pyval list"
  | PyDict "(string \<times> pyval) list"
  | ObjectId string

text \<open>
  The URL of a prepared request (\<open>requests.Request(...).prepare().url\<close>): the base URL
  and the query parameters in dictionary order. The percent-encoding is the library's.
\<close>

datatype url = Url string "(string \<times> pyval) list"

text \<open>
  The exceptions a run can end with. \<open>HttpError\<close> is the \<open>Exception\<close> raised at line 84
  (its message holds the status code and the full URL), \<open>ParseError\<close> the \<open>ValueError\<close>
  raised at line 89 (its message holds the full URL). The others are raised by the
  interpreter and the standard library on ill-shaped data.
\<close>

datatype error =
    HttpError int url
  | ParseError url
  | AttributeError
  | TypeError
  | ZeroDivisionError
  | OverflowError
  | PoolValueError
  | FileNotFoundError

record request =
  req_url :: string
  req_headers :: "(string \<times> string) list"
  req_params :: "(string \<times> pyval) list"

text \<open>
  A response object: its \<open>status_code\<close>, and what its \<open>json()\<close> method gives
  (\<open>None\<close> when it raises \<open>ValueError\<close>).
\<close>

record response =
  status_code :: int
  json :: "pyval option"

text \<open>The arguments of the \<open>limits\<close> decorator a fetch runs under.\<close>

record limits =
  calls :: int
  period :: int

text \<open>
  The calls made on \<open>MongodbHandler\<close>. Its code is not part of the sources, so the
  model records each call with its arguments, in the order they are made.
\<close>

datatype db_call =
    InsertMany string "pyval list"
  | BulkWrite string "pyval list"
  | UpdateStatus string
  | EnsureIndexOnId string string

text \<open>
  Everything outside the handler that a run touches: the requests sent (each with the
  limiter arguments it ran under), the calls on the store, the files written (each with
  the value dumped into it) and the paths that cannot be opened for writing.
\<close>

record world =
  requests_log :: "(limits \<times> request) list"
  db_calls :: "db_call list"
  files :: "(string \<times> pyval) list"
  read_only :: "string list"

section \<open>The handler and its construction\<close>

record NvdHandler =
  baseurl :: string
  api_key :: string
  public_rate_limit :: int
  api_rate_limit :: int
  rolling_window :: int
  retry_limit :: int
  retry_delay :: int
  results_per_page :: int
  max_threads :: int
  save_data :: bool

text \<open>
  The \<open>nvd\<close> section of the configuration file, after \<open>int(...)\<close> and \<open>get_boolean\<close>:
  a missing key is \<open>None\<close>.
\<close>

record nvd_config =
  cfg_url :: "string option"
  cfg_apikey :: "string option"
  cfg_public_rate_limit :: "int option"
  cfg_apikey_rate_limit :: "int option"
  cfg_rolling_window :: "int option"
  cfg_retry_limit :: "int option"
  cfg_retry_delay :: "int option"
  cfg_results_per_page :: "int option"
  cfg_max_threads :: "int option"
  cfg_save_data :: "bool option"

definition get_or :: "'a option \<Rightarrow> 'a \<Rightarrow> 'a" where
  "get_or v dflt = (case v of None \<Rightarrow> dflt | Some x \<Rightarrow> x)"

text \<open>
  Lines 36 to 46: the attributes of the handler. \<open>cfg_save_data\<close> is what
  \<open>config_handler.get_boolean('nvd', 'save_data', False)\<close> gives.
\<close>

definition init_fields :: "nvd_config \<Rightarrow> NvdHandler" where
  "init_fields c =
     \<lparr> baseurl = get_or (cfg_url c) ''https://services.nvd.nist.gov/rest/json/cves/2.0'',
       api_key = get_or (cfg_apikey c) '''',
       public_rate_limit = get_or (cfg_public_rate_limit c) 5,
       api_rate_limit = get_or (cfg_apikey_rate_limit c) 50,
       rolling_window = get_or (cfg_rolling_window c) 30,
       retry_limit = get_or (cfg_retry_limit c) 3,
       retry_delay = get_or (cfg_retry_delay c) 10,
       results_per_page = get_or (cfg_results_per_page c) 2000,
       max_threads = get_or (cfg_max_threads c) 10,
       save_data = get_or (cfg_save_data c) False \<rparr>"

text \<open>
  \<open>__init__\<close>. Lines 48 to 51: with \<open>save_data\<close> on, \<open>os.path.dirname("data")\<close> is the
  empty path; it does not exist, and \<open>os.makedirs\<close> of the empty path raises
  \<open>FileNotFoundError\<close>. Nothing in the sources sets \<open>save_data\<close> after construction.
\<close>

definition init :: "nvd_config \<Rightarrow> error + NvdHandler" where
  "init c =
     (let self = init_fields c
      in if save_data self then Inl FileNotFoundError else Inr self)"

section \<open>Dictionary and iteration primitives\<close>

definition bind_err :: "error + 'a \<Rightarrow> ('a \<Rightarrow> error + 'b) \<Rightarrow> error + 'b" where
  "bind_err r f = (case r of Inl e \<Rightarrow> Inl e | Inr x \<Rightarrow> f x)"

text \<open>\<open>d.get(k, dflt)\<close>: only a dictionary has the method.\<close>

definition py_get :: "pyval \<Rightarrow> string \<Rightarrow> pyval \<Rightarrow> error + pyval" where
  "py_get d k dflt =
     (case d of
        PyDict kvs \<Rightarrow> Inr (case map_of kvs k of None \<Rightarrow> dflt | Some v \<Rightarrow> v)
      | _ \<Rightarrow> Inl AttributeError)"

text \<open>
  Iterating a value: a list gives its items, a dictionary its keys, a string its
  characters; anything else is not iterable.
\<close>

definition py_iter :: "pyval \<Rightarrow> error + pyval list" where
  "py_iter v =
     (case v of
        PyList xs \<Rightarrow> Inr xs
      | PyDict kvs \<Rightarrow> Inr (map (\<lambda>kv. PyStr (fst kv)) kvs)
      | PyStr s \<Rightarrow> Inr (map (\<lambda>c. PyStr [c]) s)
      | _ \<Rightarrow> Inl TypeError)"

text \<open>A list comprehension whose body may raise: the first exception ends it.\<close>

fun map_err :: "('a \<Rightarrow> error + 'b) \<Rightarrow> 'a list \<Rightarrow> error + 'b list" where
  "map_err f [] = Inr []"
| "map_err f (x # xs) =
     (case f x of
        Inl e \<Rightarrow> Inl e
      | Inr y \<Rightarrow> (case map_err f xs of Inl e \<Rightarrow> Inl e | Inr ys \<Rightarrow> Inr (y # ys)))"

text \<open>\<open>params.update(custom_params)\<close>: a present key keeps its place, a new one goes last.\<close>

definition dict_update :: "(string \<times> pyval) list \<Rightarrow> (string \<times> pyval) list \<Rightarrow> (string \<times> pyval) list" where
  "dict_update d u = fold (\<lambda>kv acc. AList.update (fst kv) (snd kv) acc) u d"

text \<open>\<open>str.lower()\<close> on ASCII text.\<close>

definition lower_char :: "char \<Rightarrow> char" where
  "lower_char c =
     (case map_of (zip ''ABCDEFGHIJKLMNOPQRSTUVWXYZ'' ''abcdefghijklmnopqrstuvwxyz'') c of
        None \<Rightarrow> c
      | Some l \<Rightarrow> l)"

definition lower :: "string \<Rightarrow> string" where
  "lower s = map lower_char s"

section \<open>make_request\<close>

text \<open>The decorator arguments of line 67.\<close>

definition request_limits :: "NvdHandler \<Rightarrow> limits" where
  "request_limits self = \<lparr> calls = api_rate_limit self, period = rolling_window self \<rparr>"

definition build_params :: "NvdHandler \<Rightarrow> int \<Rightarrow> (string \<times> pyval) list option \<Rightarrow> (string \<times> pyval) list" where
  "build_params self start_index custom_params =
     (let params = [(''resultsPerPage'', PyInt (results_per_page self)),
                    (''startIndex'', PyInt start_index)]
      in case custom_params of
           None \<Rightarrow> params
         | Some cp \<Rightarrow> if cp = [] then params else dict_update params cp)"

definition build_headers :: "NvdHandler \<Rightarrow> (string \<times> string) list" where
  "build_headers self = (if api_key self \<noteq> '''' then [(''apiKey'', api_key self)] else [])"

definition build_request :: "NvdHandler \<Rightarrow> int \<Rightarrow> (string \<times> pyval) list option \<Rightarrow> request" where
  "build_request self start_index custom_params =
     \<lparr> req_url = baseurl self,
       req_headers = build_headers self,
       req_params = build_params self start_index custom_params \<rparr>"

definition full_url :: "NvdHandler \<Rightarrow> int \<Rightarrow> (string \<times> pyval) list option \<Rightarrow> url" where
  "full_url self start_index custom_params =
     Url (baseurl self) (build_params self start_index custom_params)"

text \<open>
  The inner function \<open>_make_request_limited\<close> (lines 68 to 89), given the response the
  server sent: the decoded body, or the exception raised.
\<close>

definition make_request_limited ::
  "NvdHandler \<Rightarrow> int \<Rightarrow> (string \<times> pyval) list option \<Rightarrow> response \<Rightarrow> error + pyval" where
  "make_request_limited self start_index custom_params resp =
     (if status_code resp \<noteq> 200
      then Inl (HttpError (status_code resp) (full_url self start_index custom_params))
      else case json resp of
             None \<Rightarrow> Inl (ParseError (full_url self start_index custom_params))
           | Some data \<Rightarrow> Inr data)"

text \<open>Lines 93 to 96: the record of each item of the \<open>vulnerabilities\<close> list.\<close>

definition extract_cves :: "pyval \<Rightarrow> error + pyval list" where
  "extract_cves data =
     bind_err (py_get data ''vulnerabilities'' (PyList []))
       (\<lambda>vs. bind_err (py_iter vs)
         (\<lambda>items. map_err (\<lambda>vul. py_get vul ''cve'' (PyDict [])) items))"

text \<open>Lines 98 to 104: the calls on the store for one decoded page.\<close>

definition persist :: "string \<Rightarrow> pyval list \<Rightarrow> db_call list" where
  "persist step vulnerabilities =
     (if vulnerabilities \<noteq> []
      then [if lower step = ''init''
            then InsertMany ''cve'' vulnerabilities
            else BulkWrite ''cve'' vulnerabilities,
            UpdateStatus ''nvd'']
      else [])"

text \<open>
  \<open>make_request\<close>: \<open>srv\<close> is the source API, answering each request. The request is sent
  whatever happens next; an exception leaves the world as it was when it was raised.
\<close>

definition make_request ::
  "(request \<Rightarrow> response) \<Rightarrow> NvdHandler \<Rightarrow> string \<Rightarrow> int \<Rightarrow> (string \<times> pyval) list option
     \<Rightarrow> world \<Rightarrow> (error + pyval) \<times> world" where
  "make_request srv self step start_index custom_params w =
     (let rq = build_request self start_index custom_params;
          w1 = w\<lparr>requests_log := requests_log w @ [(request_limits self, rq)]\<rparr>
      in case make_request_limited self start_index custom_params (srv rq) of
           Inl e \<Rightarrow> (Inl e, w1)
         | Inr data \<Rightarrow>
             (case extract_cves data of
                Inl e \<Rightarrow> (Inl e, w1)
              | Inr vulnerabilities \<Rightarrow>
                  (Inr data, w1\<lparr>db_calls := db_calls w1 @ persist step vulnerabilities\<rparr>)))"

section \<open>Full load\<close>

text \<open>Line 116.\<close>

definition num_pages :: "int \<Rightarrow> int \<Rightarrow> int" where
  "num_pages total_results rpp = (total_results + rpp - 1) div rpp"

text \<open>The start indices of line 125, for \<open>range(1, num_pages)\<close>.\<close>

definition task_start_indices :: "int \<Rightarrow> int \<Rightarrow> int list" where
  "task_start_indices n rpp = map (\<lambda>start_index. start_index * rpp) [1..n - 1]"

text \<open>
  The pool runs the submitted calls; here each call runs to its end before the next one
  starts, in the order given. Each gives its result or its exception to its future.
  The workers of the real pool may interleave their store calls, so of the store calls
  of several tasks only their number and contents are meant, not their order.
\<close>

fun run_tasks ::
  "(request \<Rightarrow> response) \<Rightarrow> NvdHandler \<Rightarrow> int list \<Rightarrow> world
     \<Rightarrow> (error + pyval) list \<times> world" where
  "run_tasks srv self [] w = ([], w)"
| "run_tasks srv self (i # rest) w =
     (case make_request srv self ''init'' i None w of
        (r, w1) \<Rightarrow> (case run_tasks srv self rest w1 of (rs, w2) \<Rightarrow> (r # rs, w2)))"

text \<open>
  Lines 128 to 132: \<open>future.result()\<close> raises the exception of a failed call; the
  \<open>vulnerabilities\<close> of every other one extend \<open>all_vulnerabilities\<close>.
\<close>

fun collect :: "(error + pyval) list \<Rightarrow> pyval list \<Rightarrow> error + pyval list" where
  "collect [] all_vulnerabilities = Inr all_vulnerabilities"
| "collect (r # rs) all_vulnerabilities =
     (case r of
        Inl e \<Rightarrow> Inl e
      | Inr data \<Rightarrow>
          bind_err (py_get data ''vulnerabilities'' (PyList []))
            (\<lambda>v. bind_err (py_iter v)
              (\<lambda>vulnerabilities. collect rs (all_vulnerabilities @ vulnerabilities))))"

text \<open>The operand \<open>total_results\<close> of the arithmetic of line 116 (a \<open>bool\<close> is an \<open>int\<close>).\<close>

definition as_int :: "pyval \<Rightarrow> error + int" where
  "as_int v =
     (case v of
        PyInt n \<Rightarrow> Inr n
      | PyBool b \<Rightarrow> Inr (if b then 1 else 0)
      | _ \<Rightarrow> Inl TypeError)"

section \<open>Snapshot files\<close>

text \<open>
  \<open>utils.JSONEncoder\<close>: an \<open>ObjectId\<close> is dumped as its string, everything else as it is.
\<close>

fun encode :: "pyval \<Rightarrow> pyval" where
  "encode (ObjectId s) = PyStr s"
| "encode (PyList xs) = PyList (map encode xs)"
| "encode (PyDict kvs) = PyDict (map (map_prod id encode) kvs)"
| "encode v = v"

text \<open>
  \<open>utils.write2json\<close>: the file holds the dumped value; a file that cannot be opened is
  logged and nothing is raised.
\<close>

definition write2json :: "string \<Rightarrow> pyval \<Rightarrow> world \<Rightarrow> world" where
  "write2json filename data w =
     (if filename \<in> set (read_only w) then w
      else w\<lparr>files := AList.update filename (encode data) (files w)\<rparr>)"

text \<open>
  \<open>download_all_data\<close>. \<open>sched\<close> is the order in which the pool runs the submitted
  calls and in which \<open>as_completed\<close> hands them back. Leaving the executor's \<open>with\<close>
  block waits for every submitted call, so all of them run even when one has failed.
  The progress bar is left out.
\<close>

definition download_all_data ::
  "(request \<Rightarrow> response) \<Rightarrow> (int list \<Rightarrow> int list) \<Rightarrow> NvdHandler \<Rightarrow> world
     \<Rightarrow> (error + unit) \<times> world" where
  "download_all_data srv sched self w =
     (case make_request srv self ''update'' 0 None w of
        (Inl e, w1) \<Rightarrow> (Inl e, w1)
      | (Inr initial_response, w1) \<Rightarrow>
          (case bind_err (py_get initial_response ''totalResults'' (PyInt 0)) as_int of
             Inl e \<Rightarrow> (Inl e, w1)
           | Inr total_results \<Rightarrow>
               if results_per_page self = 0 then (Inl ZeroDivisionError, w1)
               else if max_threads self \<le> 0 then (Inl PoolValueError, w1)
               else
                 (case run_tasks srv self
                         (sched (task_start_indices
                                   (num_pages total_results (results_per_page self))
                                   (results_per_page self))) w1 of
                    (results, w2) \<Rightarrow>
                      (case collect results [] of
                         Inl e \<Rightarrow> (Inl e, w2)
                       | Inr all_vulnerabilities \<Rightarrow>
                           (let w3 = w2\<lparr>db_calls := db_calls w2 @ [EnsureIndexOnId ''cve'' ''id'']\<rparr>
                            in (Inr (),
                                if save_data self
                                then write2json ''data/nvd_all.json'' (PyList all_vulnerabilities) w3
                                else w3))))))"

section \<open>Incremental sync\<close>

text \<open>
  A \<open>datetime\<close> is the number of microseconds since 1970-01-01T00:00:00 (UTC), between
  \<open>datetime.min\<close> and \<open>datetime.max\<close>.
\<close>

type_synonym datetime = int

definition datetime_min :: datetime where
  "datetime_min = - 62135596800000000"

definition datetime_max :: datetime where
  "datetime_max = 253402300799999999"

text \<open>\<open>timedelta(hours=h)\<close>, in microseconds: at most 999999999 days either way.\<close>

definition timedelta_hours :: "int \<Rightarrow> error + int" where
  "timedelta_hours h =
     (if h div 24 < - 999999999 \<or> 999999999 < h div 24 then Inl OverflowError
      else Inr (h * 3600000000))"

definition datetime_sub :: "datetime \<Rightarrow> int \<Rightarrow> error + datetime" where
  "datetime_sub t delta =
     (if t - delta < datetime_min \<or> datetime_max < t - delta then Inl OverflowError
      else Inr (t - delta))"

text \<open>The civil date (year, month, day) of a day number counted from 1970-01-01.\<close>

definition civil_from_days :: "int \<Rightarrow> int \<times> int \<times> int" where
  "civil_from_days z =
     (let z1 = z + 719468;
          era = z1 div 146097;
          doe = z1 mod 146097;
          yoe = (doe - doe div 1460 + doe div 36524 - doe div 146096) div 365;
          doy = doe - (365 * yoe + yoe div 4 - yoe div 100);
          mp = (5 * doy + 2) div 153;
          d = doy - (153 * mp + 2) div 5 + 1;
          m = (if mp < 10 then mp + 3 else mp - 9);
          y = yoe + era * 400 + (if m \<le> 2 then 1 else 0)
      in (y, m, d))"

definition digit :: "int \<Rightarrow> char" where
  "digit n = ''0123456789'' ! nat (n mod 10)"

definition pad2 :: "int \<Rightarrow> string" where
  "pad2 n = [digit (n div 10), digit n]"

definition pad4 :: "int \<Rightarrow> string" where
  "pad4 n = [digit (n div 1000), digit (n div 100), digit (n div 10), digit n]"

text \<open>
  \<open>%Y\<close>: the C library writes the year without padding, so a year below 1000 has fewer
  than four digits (a \<open>datetime\<close> has a year from 1 to 9999).
\<close>

definition year_str :: "int \<Rightarrow> string" where
  "year_str y =
     (if y < 10 then [digit y]
      else if y < 100 then [digit (y div 10), digit y]
      else if y < 1000 then [digit (y div 100), digit (y div 10), digit y]
      else pad4 y)"

definition year_of :: "datetime \<Rightarrow> int" where
  "year_of t = fst (civil_from_days (t div 1000000 div 86400))"

text \<open>\<open>t.strftime('%Y-%m-%dT%H:%M:%SZ')\<close>.\<close>

definition strftime :: "datetime \<Rightarrow> string" where
  "strftime t =
     (let secs = t div 1000000;
          sod = secs mod 86400
      in case civil_from_days (secs div 86400) of
           (y, m, d) \<Rightarrow>
             year_str y @ ''-'' @ pad2 m @ ''-'' @ pad2 d @ ''T''
               @ pad2 (sod div 3600) @ '':'' @ pad2 (sod mod 3600 div 60) @ '':''
               @ pad2 (sod mod 60) @ ''Z'')"

text \<open>Truthiness of the \<open>last_hours\<close> argument (line 145): \<open>None\<close> and \<open>0\<close> are false.\<close>

definition truthy_hours :: "int option \<Rightarrow> bool" where
  "truthy_hours last_hours = (case last_hours of None \<Rightarrow> False | Some h \<Rightarrow> h \<noteq> 0)"

text \<open>Lines 145 to 150: \<open>lastModStartDate\<close>.\<close>

definition window_start :: "datetime \<Rightarrow> int option \<Rightarrow> datetime option \<Rightarrow> error + datetime" where
  "window_start now_utc last_hours last_update_time =
     (if truthy_hours last_hours
      then bind_err (timedelta_hours (the last_hours)) (datetime_sub now_utc)
      else case last_update_time of
             Some t \<Rightarrow> Inr t
           | None \<Rightarrow> bind_err (timedelta_hours 24) (datetime_sub now_utc))"

text \<open>Lines 165 to 168.\<close>

definition window_params :: "datetime \<Rightarrow> datetime \<Rightarrow> (string \<times> pyval) list" where
  "window_params lastModStartDate now_utc =
     [(''lastModStartDate'', PyStr (strftime lastModStartDate)),
      (''lastModEndDate'', PyStr (strftime now_utc))]"

text \<open>
  \<open>get_updates\<close>. \<open>last_update_time\<close> is what the store's \<open>get_last_update_time("nvd")\<close>
  returns and \<open>now_utc\<close> what \<open>datetime.utcnow()\<close> returns. The log line is left out.
\<close>

definition get_updates ::
  "(request \<Rightarrow> response) \<Rightarrow> NvdHandler \<Rightarrow> datetime option \<Rightarrow> datetime \<Rightarrow> int option
     \<Rightarrow> world \<Rightarrow> (error + unit) \<times> world" where
  "get_updates srv self last_update_time now_utc last_hours w =
     (case window_start now_utc last_hours last_update_time of
        Inl e \<Rightarrow> (Inl e, w)
      | Inr lastModStartDate \<Rightarrow>
          (case make_request srv self ''update'' 0
                  (Some (window_params lastModStartDate now_utc)) w of
             (Inl e, w1) \<Rightarrow> (Inl e, w1)
           | (Inr updates, w1) \<Rightarrow>
               (Inr (),
                if save_data self then write2json ''data/nvd_update.json'' updates w1 else w1)))"

section \<open>Notions used to state the properties\<close>

text \<open>
  What one call of \<open>make_request\<close> gets for a start index: the decoded page together with
  its record list, or the exception raised on the way. The source API answers a request
  by its contents, so this does not depend on the world.
\<close>

definition page_result ::
  "(request \<Rightarrow> response) \<Rightarrow> NvdHandler \<Rightarrow> (string \<times> pyval) list option \<Rightarrow> int
     \<Rightarrow> error + pyval \<times> pyval list" where
  "page_result srv self custom_params start_index =
     bind_err (make_request_limited self start_index custom_params
                 (srv (build_request self start_index custom_params)))
       (\<lambda>data. bind_err (extract_cves data) (\<lambda>vulnerabilities. Inr (data, vulnerabilities)))"

definition page_writes :: "string \<Rightarrow> error + pyval \<times> pyval list \<Rightarrow> db_call list" where
  "page_writes step r = (case r of Inl e \<Rightarrow> [] | Inr p \<Rightarrow> persist step (snd p))"

definition sent :: "NvdHandler \<Rightarrow> (string \<times> pyval) list option \<Rightarrow> int \<Rightarrow> limits \<times> request" where
  "sent self custom_params start_index =
     (request_limits self, build_request self start_index custom_params)"

text \<open>A configuration file with an empty \<open>nvd\<close> section, and a world nothing has touched.\<close>

definition no_config :: nvd_config where
  "no_config =
     \<lparr> cfg_url = None, cfg_apikey = None, cfg_public_rate_limit = None,
       cfg_apikey_rate_limit = None, cfg_rolling_window = None, cfg_retry_limit = None,
       cfg_retry_delay = None, cfg_results_per_page = None, cfg_max_threads = None,
       cfg_save_data = None \<rparr>"

definition empty_world :: world where
  "empty_world = \<lparr> requests_log = [], db_calls = [], files = [], read_only = [] \<rparr>"

text \<open>The handler built from a configuration file with an empty \<open>nvd\<close> section.\<close>

definition default_handler :: NvdHandler where
  "default_handler = init_fields no_config"

text \<open>A source that answers every request with status 200 and the same decoded body.\<close>

definition constant_source :: "pyval \<Rightarrow> request \<Rightarrow> response" where
  "constant_source body rq = \<lparr> status_code = 200, json = Some body \<rparr>"

text \<open>A decoded page that reports \<open>total_results\<close> results and holds one record.\<close>

definition cve_page :: "int \<Rightarrow> string \<Rightarrow> pyval" where
  "cve_page total_results ident =
     PyDict [(''totalResults'', PyInt total_results),
             (''vulnerabilities'', PyList [PyDict [(''cve'', PyDict [(''id'', PyStr ident)])]])]"

definition empty_page :: pyval where
  "empty_page = PyDict [(''totalResults'', PyInt 0), (''vulnerabilities'', PyList [])]"

text \<open>A time that a \<open>datetime\<close> can hold.\<close>

definition in_range :: "datetime \<Rightarrow> bool" where
  "in_range t \<longleftrightarrow> datetime_min \<le> t \<and> t \<le> datetime_max"

text \<open>
  A source that answers the request for the start index \<open>bad\<close> with the status
  \<open>status\<close> and no JSON body, and every other request with status 200 and \<open>body\<close>.
\<close>

definition failing_source :: "int \<Rightarrow> int \<Rightarrow> pyval \<Rightarrow> request \<Rightarrow> response" where
  "failing_source bad status body rq =
     (if map_of (req_params rq) ''startIndex'' = Some (PyInt bad)
      then \<lparr> status_code = status, json = None \<rparr>
      else \<lparr> status_code = 200, json = Some body \<rparr>)"




section \<open>Properties\<close>

subsection \<open>One request, and the calls of the pool\<close>

lemma make_request_eq:
  "make_request srv self step i cp w =
     (map_sum id fst (page_result srv self cp i),
      w\<lparr>requests_log := requests_log w @ [sent self cp i],
        db_calls := db_calls w @ page_writes step (page_result srv self cp i)\<rparr>)"
  by (simp add: make_request_def page_result_def page_writes_def sent_def bind_err_def Let_def
      split: sum.splits)

lemma run_tasks_eq:
  "run_tasks srv self is w =
     (map (\<lambda>i. map_sum id fst (page_result srv self None i)) is,
      w\<lparr>requests_log := requests_log w @ map (sent self None) is,
        db_calls := db_calls w
          @ concat (map (\<lambda>i. page_writes ''init'' (page_result srv self None i)) is)\<rparr>)"
  by (induction "is" arbitrary: w) (simp_all add: make_request_eq)

lemma page_result_cve_page:
  "page_result (constant_source (cve_page n ident)) self cp i =
     Inr (cve_page n ident, [PyDict [(''id'', PyStr ident)]])"
  by (simp add: page_result_def constant_source_def make_request_limited_def cve_page_def
      extract_cves_def py_get_def py_iter_def bind_err_def)

lemma cve_page_total:
  "bind_err (py_get (cve_page n ident) ''totalResults'' (PyInt 0)) as_int = Inr n"
  by (simp add: cve_page_def py_get_def as_int_def bind_err_def)

lemma lower_step: "lower ''update'' = ''update''" "lower ''init'' = ''init''"
  by (simp_all add: lower_def lower_char_def)

lemma window_start_example: "window_start 1700000000000000 None None = Inr 1699913600000000"
  by (simp add: window_start_def truthy_hours_def timedelta_hours_def datetime_sub_def
      bind_err_def datetime_min_def datetime_max_def)

subsection \<open>The page count\<close>

lemma div_round_up:
  fixes t r :: int
  assumes r: "0 < r"
  shows "(t + r - 1) div r = (if t mod r = 0 then t div r else t div r + 1)"
proof -
  define q where "q = t div r"
  define m where "m = t mod r"
  have t: "t = q * r + m" by (simp add: q_def m_def)
  have m: "0 \<le> m" "m < r" using r by (simp_all add: m_def)
  show ?thesis
  proof (cases "m = 0")
    case True
    have "(t + r - 1) div r = (r - 1 + q * r) div r" using t True by (simp add: algebra_simps)
    also have "\<dots> = (r - 1) div r + q" using r by (subst div_mult_self1) simp_all
    also have "(r - 1) div r = 0" using r by (simp add: div_pos_pos_trivial)
    finally show ?thesis using True by (simp add: q_def m_def)
  next
    case False
    have "(t + r - 1) div r = (m - 1 + (q + 1) * r) div r" using t by (simp add: algebra_simps)
    also have "\<dots> = (m - 1) div r + (q + 1)" using r by (subst div_mult_self1) simp_all
    also have "(m - 1) div r = 0" using r m False by (simp add: div_pos_pos_trivial)
    finally show ?thesis using False by (simp add: q_def m_def)
  qed
qed

lemma num_pages_ceiling:
  "0 < rpp \<Longrightarrow> num_pages total_results rpp = \<lceil>real_of_int total_results / real_of_int rpp\<rceil>"
  unfolding num_pages_def ceiling_divide_eq_div
  by (simp add: div_round_up zdiv_zminus1_eq_if)

subsection \<open>One fetched page\<close>

text \<open>
  C10. A fetched page whose decoded record list is empty makes \<open>make_request\<close> call the
  store not at all, neither to insert, nor to upsert, nor to update the status: the
  world changes only by the request sent, and the page's data is returned.
\<close>

theorem empty_page_not_persisted:
  assumes "make_request_limited self start_index custom_params
             (srv (build_request self start_index custom_params)) = Inr data"
    and "extract_cves data = Inr []"
  shows "make_request srv self step start_index custom_params w =
           (Inr data, w\<lparr>requests_log := requests_log w @ [sent self custom_params start_index]\<rparr>)
         \<and> db_calls (snd (make_request srv self step start_index custom_params w)) = db_calls w
         \<and> files (snd (make_request srv self step start_index custom_params w)) = files w"
  using assms by (simp add: make_request_def persist_def sent_def Let_def)

theorem empty_page_not_persisted_witness:
  "make_request (constant_source empty_page) default_handler ''update'' 0 None empty_world =
     (Inr empty_page, empty_world\<lparr>requests_log := [sent default_handler None 0]\<rparr>)
   \<and> db_calls (snd (make_request (constant_source empty_page) default_handler ''update'' 0 None
        empty_world)) = []"
  using empty_page_not_persisted [of "default_handler" 0 None "constant_source empty_page"
      empty_page "''update''" empty_world]
  by (simp add: make_request_limited_def constant_source_def extract_cves_def py_get_def
      py_iter_def bind_err_def empty_world_def empty_page_def)












subsection \<open>The rate limit profile\<close>

text \<open>
  C3. The claim wants a run without a credential token to be limited to the public rate
  limit. The handler built from a configuration without \<open>apikey\<close> has the public limit 5
  and the API limit 50, and its requests run under the limit 50.
\<close>

theorem limiter_ignores_public_profile:
  "init no_config = Inr default_handler
   \<and> api_key default_handler = '''' \<and> public_rate_limit default_handler = 5
   \<and> request_limits default_handler = \<lparr>calls = 50, period = 30\<rparr>
   \<and> map fst (requests_log (snd (make_request (constant_source (cve_page 1 ''CVE-1''))
                 default_handler ''update'' 0 None empty_world)))
       = [\<lparr>calls = 50, period = 30\<rparr>]"
  by (simp add: make_request_eq sent_def request_limits_def init_def default_handler_def
      init_fields_def no_config_def get_or_def Let_def empty_world_def)

subsection \<open>Incremental sync\<close>

lemma get_updates_requests:
  "length (requests_log (snd (get_updates srv self last_update_time now_utc last_hours w)))
     \<le> length (requests_log w) + 1"
  by (simp add: get_updates_def make_request_eq write2json_def split: sum.splits)

text \<open>
  C1. The claim wants an incremental run whose window holds more records than one page
  to fetch every page. Whatever the source reports, \<open>get_updates\<close> sends at most one
  request; with 5000 results at 2000 per page it sends the one with start index 0 only.
\<close>

theorem incremental_fetches_first_page_only:
  "length (requests_log (snd (get_updates srv self last_update_time now_utc last_hours w)))
     \<le> length (requests_log w) + 1
   \<and> results_per_page default_handler = 2000
   \<and> map (\<lambda>p. map_of (req_params (snd p)) ''startIndex'')
         (requests_log (snd (get_updates (constant_source (cve_page 5000 ''CVE-1''))
            default_handler None 1700000000000000 None empty_world)))
       = [Some (PyInt 0)]"
proof (intro conjI)
  show "length (requests_log (snd (get_updates srv self last_update_time now_utc last_hours w)))
          \<le> length (requests_log w) + 1"
    by (rule get_updates_requests)
  show "results_per_page default_handler = 2000"
    by (simp add: default_handler_def init_fields_def no_config_def get_or_def)
  show "map (\<lambda>p. map_of (req_params (snd p)) ''startIndex'')
         (requests_log (snd (get_updates (constant_source (cve_page 5000 ''CVE-1''))
            default_handler None 1700000000000000 None empty_world)))
       = [Some (PyInt 0)]"
    by (simp add: get_updates_def window_start_example make_request_eq page_result_cve_page
        sent_def build_request_def build_params_def window_params_def dict_update_def
        default_handler_def init_fields_def no_config_def get_or_def empty_world_def)
qed

subsection \<open>The window of an incremental sync\<close>

lemma get_updates_log:
  "window_start now_utc last_hours last_update_time = Inr s \<Longrightarrow>
     requests_log (snd (get_updates srv self last_update_time now_utc last_hours w))
       = requests_log w @ [sent self (Some (window_params s now_utc)) 0]"
  by (simp add: get_updates_def make_request_eq write2json_def split: sum.splits)

lemma strftime_length: "1000 \<le> year_of t \<Longrightarrow> length (strftime t) = 20"
  by (auto simp: strftime_def year_of_def year_str_def pad2_def pad4_def Let_def
      split: prod.splits)

lemma strftime_seconds: "strftime t = strftime (t - t mod 1000000)"
proof -
  have "(t - t mod 1000000) div 1000000 = t div 1000000"
    by (simp add: minus_mod_eq_mult_div)
  then show ?thesis by (simp add: strftime_def)
qed

lemma strftime_example:
  "strftime 1700000000123456 = ''2023-11-14T22:13:20Z''"
  "strftime 1699982000123456 = ''2023-11-14T17:13:20Z''"
  by code_simp+

lemma year_of_example:
  "year_of 1700000000123456 = 2023" "year_of 1699982000123456 = 2023"
  by code_simp+

lemma strftime_year_999: "strftime (- 30610224001000000) = ''999-12-31T23:59:59Z''"
  by code_simp

text \<open>
  C5, as amended. The window ends now (UTC). With an hours override \<open>H\<close> other than 0
  the window starts at now minus \<open>H\<close> hours, whatever the stored checkpoint; with no
  override, or an override of 0 hours, it starts at the checkpoint \<open>T0\<close> when there is
  one and at now minus 24 hours otherwise. The request carries both bounds formatted by
  the same pattern, cut to whole seconds, and 20 characters long when the year is 1000
  or later.
\<close>

theorem window_selection:
  "(h \<noteq> 0 \<and> \<bar>h div 24\<bar> \<le> 999999999 \<and> in_range (now_utc - h * 3600000000) \<longrightarrow>
      window_start now_utc (Some h) last_update_time = Inr (now_utc - h * 3600000000))
   \<and> window_start now_utc None (Some t0) = Inr t0
   \<and> window_start now_utc (Some 0) (Some t0) = Inr t0
   \<and> (in_range (now_utc - 24 * 3600000000) \<longrightarrow>
        window_start now_utc None None = Inr (now_utc - 24 * 3600000000)
        \<and> window_start now_utc (Some 0) None = Inr (now_utc - 24 * 3600000000))
   \<and> (window_start now_utc last_hours last_update_time = Inr s \<longrightarrow>
        requests_log (snd (get_updates srv self last_update_time now_utc last_hours w))
          = requests_log w @ [sent self (Some (window_params s now_utc)) 0]
        \<and> window_params s now_utc
          = [(''lastModStartDate'', PyStr (strftime s)),
             (''lastModEndDate'', PyStr (strftime now_utc))]
        \<and> (1000 \<le> year_of s \<longrightarrow> length (strftime s) = 20)
        \<and> (1000 \<le> year_of now_utc \<longrightarrow> length (strftime now_utc) = 20)
        \<and> strftime s = strftime (s - s mod 1000000)
        \<and> strftime now_utc = strftime (now_utc - now_utc mod 1000000))"
proof (intro conjI impI)
  assume "h \<noteq> 0 \<and> \<bar>h div 24\<bar> \<le> 999999999 \<and> in_range (now_utc - h * 3600000000)"
  then show "window_start now_utc (Some h) last_update_time = Inr (now_utc - h * 3600000000)"
    by (auto simp: window_start_def truthy_hours_def timedelta_hours_def datetime_sub_def
        bind_err_def in_range_def)
next
  show "window_start now_utc None (Some t0) = Inr t0"
    by (simp add: window_start_def truthy_hours_def)
  show "window_start now_utc (Some 0) (Some t0) = Inr t0"
    by (simp add: window_start_def truthy_hours_def)
next
  assume r: "in_range (now_utc - 24 * 3600000000)"
  then show "window_start now_utc None None = Inr (now_utc - 24 * 3600000000)"
    by (simp add: window_start_def truthy_hours_def timedelta_hours_def datetime_sub_def
        bind_err_def in_range_def)
  from r show "window_start now_utc (Some 0) None = Inr (now_utc - 24 * 3600000000)"
    by (simp add: window_start_def truthy_hours_def timedelta_hours_def datetime_sub_def
        bind_err_def in_range_def)
next
  assume "window_start now_utc last_hours last_update_time = Inr s"
  then show "requests_log (snd (get_updates srv self last_update_time now_utc last_hours w))
          = requests_log w @ [sent self (Some (window_params s now_utc)) 0]"
    by (rule get_updates_log)
next
  show "window_params s now_utc
          = [(''lastModStartDate'', PyStr (strftime s)),
             (''lastModEndDate'', PyStr (strftime now_utc))]"
    by (simp add: window_params_def)
next
  assume "1000 \<le> year_of s"
  then show "length (strftime s) = 20" by (rule strftime_length)
next
  assume "1000 \<le> year_of now_utc"
  then show "length (strftime now_utc) = 20" by (rule strftime_length)
next
  show "strftime s = strftime (s - s mod 1000000)"
    "strftime now_utc = strftime (now_utc - now_utc mod 1000000)"
    by (rule strftime_seconds)+
qed

theorem window_selection_witness:
  "window_start 1700000000123456 (Some 5) (Some 1600000000000000) = Inr 1699982000123456
   \<and> window_start 1700000000123456 None None = Inr 1699913600123456
   \<and> map (\<lambda>p. req_params (snd p))
        (requests_log (snd (get_updates (constant_source empty_page) default_handler
           (Some 1600000000000000) 1700000000123456 (Some 5) empty_world)))
      = [[(''resultsPerPage'', PyInt 2000), (''startIndex'', PyInt 0),
          (''lastModStartDate'', PyStr ''2023-11-14T17:13:20Z''),
          (''lastModEndDate'', PyStr ''2023-11-14T22:13:20Z'')]]"
  using window_selection [where h = 5 and now_utc = 1700000000123456
      and last_update_time = "Some 1600000000000000" and last_hours = "Some 5"
      and s = 1699982000123456 and srv = "constant_source empty_page"
      and self = "default_handler" and w = empty_world]
  by (simp add: in_range_def datetime_min_def datetime_max_def strftime_example
      year_of_example sent_def
      build_request_def build_params_def dict_update_def default_handler_def init_fields_def no_config_def get_or_def
      empty_world_def)

text \<open>
  The claim as stated fails for an override of 0 hours: the window then starts at the
  stored checkpoint, not at now. And a stored checkpoint in the year 999 is taken as it
  is and formatted with three year digits, 19 characters in all.
\<close>

theorem window_override_counterexample:
  "window_start 1700000000000000 (Some 0) (Some 1600000000000000) = Inr 1600000000000000
   \<and> window_start 1700000000000000 (Some 0) (Some 1600000000000000)
       \<noteq> Inr (1700000000000000 - 0 * 3600000000)
   \<and> window_start 1700000000000000 None (Some (- 30610224001000000))
       = Inr (- 30610224001000000)
   \<and> strftime (- 30610224001000000) = ''999-12-31T23:59:59Z''
   \<and> length (strftime (- 30610224001000000)) = 19"
  by (simp add: window_start_def truthy_hours_def strftime_year_999)

subsection \<open>The run of a full load\<close>

lemma extract_cves_collect:
  "extract_cves data = Inr vs \<Longrightarrow>
   \<exists>items. bind_err (py_get data ''vulnerabilities'' (PyList [])) py_iter = Inr items"
  by (auto simp: extract_cves_def bind_err_def split: sum.splits)

lemma page_result_Inr:
  "page_result srv self cp i = Inr (data, vs) \<Longrightarrow> extract_cves data = Inr vs"
  by (auto simp: page_result_def bind_err_def split: sum.splits)

lemma collect_first_error:
  assumes "\<forall>i\<in>set pre. \<exists>p. page_result srv self None i = Inr p"
    and "page_result srv self None j = Inl e"
  shows "collect (map (\<lambda>i. map_sum id fst (page_result srv self None i)) (pre @ j # post)) acc
           = Inl e"
  using assms
proof (induction pre arbitrary: acc)
  case Nil
  then show ?case by simp
next
  case (Cons i pre)
  from Cons.prems obtain data vs where p: "page_result srv self None i = Inr (data, vs)"
    by auto
  from extract_cves_collect [OF page_result_Inr [OF p]] obtain items
    where "bind_err (py_get data ''vulnerabilities'' (PyList [])) py_iter = Inr items" ..
  then obtain v where "py_get data ''vulnerabilities'' (PyList []) = Inr v" "py_iter v = Inr items"
    by (auto simp: bind_err_def split: sum.splits)
  with p Cons show ?case by (simp add: bind_err_def)
qed

lemma download_all_data_eq:
  assumes "page_result srv self None 0 = Inr (d0, vs0)"
    and "bind_err (py_get d0 ''totalResults'' (PyInt 0)) as_int = Inr total_results"
    and "results_per_page self \<noteq> 0" and "0 < max_threads self"
  shows "download_all_data srv sched self w =
     (let tasks = sched (task_start_indices (num_pages total_results (results_per_page self))
                           (results_per_page self));
          w2 = w\<lparr>requests_log := requests_log w @ sent self None 0 # map (sent self None) tasks,
                 db_calls := db_calls w @ persist ''update'' vs0
                   @ concat (map (\<lambda>i. page_writes ''init'' (page_result srv self None i)) tasks)\<rparr>
      in case collect (map (\<lambda>i. map_sum id fst (page_result srv self None i)) tasks) [] of
           Inl e \<Rightarrow> (Inl e, w2)
         | Inr all_vulnerabilities \<Rightarrow>
             (Inr (),
              if save_data self
              then write2json ''data/nvd_all.json'' (PyList all_vulnerabilities)
                     (w2\<lparr>db_calls := db_calls w2 @ [EnsureIndexOnId ''cve'' ''id'']\<rparr>)
              else w2\<lparr>db_calls := db_calls w2 @ [EnsureIndexOnId ''cve'' ''id'']\<rparr>))"
  using assms
  by (simp add: download_all_data_def make_request_eq run_tasks_eq page_writes_def Let_def
      split: sum.splits)

lemma download_all_data_seed_error:
  assumes "page_result srv self None 0 = Inl e"
  shows "download_all_data srv sched self w =
     (Inl e, w\<lparr>requests_log := requests_log w @ [sent self None 0]\<rparr>)"
  using assms by (simp add: download_all_data_def make_request_eq page_writes_def)

lemma download_all_data_files:
  "\<not> save_data self \<Longrightarrow> files (snd (download_all_data srv sched self w)) = files w"
  by (simp add: download_all_data_def make_request_eq run_tasks_eq Let_def
      split: sum.splits prod.splits)

text \<open>
  C6. The claim wants a full load with the snapshot export enabled to write a file
  with the records of every page. With \<open>save_data\<close> on in the configuration the
  construction of the handler raises \<open>FileNotFoundError\<close>, so there is no run and no
  file. Every handler that is constructed has the export off, and its full load leaves
  the files as they are.
\<close>

theorem snapshot_export_fails_at_construction:
  "init (no_config\<lparr>cfg_save_data := Some True\<rparr>) = Inl FileNotFoundError
   \<and> (case init c of
         Inl e \<Rightarrow> e = FileNotFoundError \<and> get_or (cfg_save_data c) False
       | Inr self \<Rightarrow>
           get_or (cfg_save_data c) False = False
           \<and> files (snd (download_all_data srv sched self w)) = files w)"
  by (simp add: init_def init_fields_def no_config_def get_or_def Let_def
      download_all_data_files)

lemma download_all_data_log:
  assumes "page_result srv self None 0 = Inr (d0, vs0)"
    and "bind_err (py_get d0 ''totalResults'' (PyInt 0)) as_int = Inr total_results"
    and "results_per_page self \<noteq> 0" and "0 < max_threads self"
  shows "requests_log (snd (download_all_data srv sched self w)) =
     requests_log w @ sent self None 0 # map (sent self None)
       (sched (task_start_indices (num_pages total_results (results_per_page self))
                 (results_per_page self)))"
  by (simp add: download_all_data_eq [OF assms] Let_def write2json_def split: sum.splits)






lemma tasks_5000: "task_start_indices (num_pages 5000 2000) 2000 = [2000, 4000]"
  by (simp add: num_pages_def task_start_indices_def upto_rec1)


subsection \<open>A failed fetch\<close>

lemma get_updates_error:
  assumes "window_start now_utc last_hours last_update_time = Inr s"
    and "page_result srv self (Some (window_params s now_utc)) 0 = Inl e"
  shows "get_updates srv self last_update_time now_utc last_hours w =
           (Inl e, w\<lparr>requests_log := requests_log w @ [sent self (Some (window_params s now_utc)) 0]\<rparr>)"
  using assms by (simp add: get_updates_def make_request_eq page_writes_def)

lemma download_all_data_task_error:
  assumes seed: "page_result srv self None 0 = Inr (d0, vs0)"
    and tot: "bind_err (py_get d0 ''totalResults'' (PyInt 0)) as_int = Inr total_results"
    and rpp: "results_per_page self \<noteq> 0" and thr: "0 < max_threads self"
    and tasks: "sched (task_start_indices (num_pages total_results (results_per_page self))
                  (results_per_page self)) = pre @ j # post"
    and pre: "\<forall>i\<in>set pre. \<exists>p. page_result srv self None i = Inr p"
    and j: "page_result srv self None j = Inl e"
  shows "download_all_data srv sched self w =
     (Inl e,
      w\<lparr>requests_log := requests_log w @ sent self None 0 # map (sent self None) (pre @ j # post),
        db_calls := db_calls w @ persist ''update'' vs0
          @ concat (map (\<lambda>i. page_writes ''init'' (page_result srv self None i)) (pre @ j # post))\<rparr>)"
  using collect_first_error [OF pre j, of post "[]"]
  by (simp add: download_all_data_eq [OF seed tot rpp thr] tasks Let_def)

lemma page_writes_insert:
  "vs \<noteq> [] \<Longrightarrow> page_writes ''init'' (Inr (d, vs)) = [InsertMany ''cve'' vs, UpdateStatus ''nvd'']"
  by (simp add: page_writes_def persist_def lower_step)

text \<open>
  C7. When a page fetch raises, the run ends with that exception. If it is the seed
  fetch, of a full load or of an incremental sync, nothing has been handed to the
  store. If it is a later page of a full load, the store has received the seed page and
  every page whose fetch succeeded, and nothing else: no call takes a write back, the
  index is not requested and no snapshot is written.
\<close>

theorem failed_fetch_fails_run:
  "(page_result srv self None 0 = Inl e \<longrightarrow>
      download_all_data srv sched self w
        = (Inl e, w\<lparr>requests_log := requests_log w @ [sent self None 0]\<rparr>))
   \<and> (window_start now_utc last_hours last_update_time = Inr s
        \<and> page_result srv self (Some (window_params s now_utc)) 0 = Inl e \<longrightarrow>
      get_updates srv self last_update_time now_utc last_hours w
        = (Inl e, w\<lparr>requests_log := requests_log w
                        @ [sent self (Some (window_params s now_utc)) 0]\<rparr>))
   \<and> (page_result srv self None 0 = Inr (d0, vs0)
        \<and> bind_err (py_get d0 ''totalResults'' (PyInt 0)) as_int = Inr total_results
        \<and> results_per_page self \<noteq> 0 \<and> 0 < max_threads self
        \<and> sched (task_start_indices (num_pages total_results (results_per_page self))
                   (results_per_page self)) = pre @ j # post
        \<and> (\<forall>i\<in>set pre. \<exists>p. page_result srv self None i = Inr p)
        \<and> page_result srv self None j = Inl e \<longrightarrow>
      fst (download_all_data srv sched self w) = Inl e
      \<and> db_calls (snd (download_all_data srv sched self w))
          = db_calls w @ persist ''update'' vs0
              @ concat (map (\<lambda>i. page_writes ''init'' (page_result srv self None i))
                          (pre @ j # post))
      \<and> (\<forall>i\<in>set pre. \<forall>d vs. page_result srv self None i = Inr (d, vs) \<and> vs \<noteq> [] \<longrightarrow>
            InsertMany ''cve'' vs \<in> set (db_calls (snd (download_all_data srv sched self w))))
      \<and> files (snd (download_all_data srv sched self w)) = files w)"
proof (intro conjI impI)
  assume "page_result srv self None 0 = Inl e"
  then show "download_all_data srv sched self w
        = (Inl e, w\<lparr>requests_log := requests_log w @ [sent self None 0]\<rparr>)"
    by (rule download_all_data_seed_error)
next
  assume "window_start now_utc last_hours last_update_time = Inr s
        \<and> page_result srv self (Some (window_params s now_utc)) 0 = Inl e"
  then show "get_updates srv self last_update_time now_utc last_hours w
        = (Inl e, w\<lparr>requests_log := requests_log w
                        @ [sent self (Some (window_params s now_utc)) 0]\<rparr>)"
    by (simp add: get_updates_error)
next
  assume a: "page_result srv self None 0 = Inr (d0, vs0)
        \<and> bind_err (py_get d0 ''totalResults'' (PyInt 0)) as_int = Inr total_results
        \<and> results_per_page self \<noteq> 0 \<and> 0 < max_threads self
        \<and> sched (task_start_indices (num_pages total_results (results_per_page self))
                   (results_per_page self)) = pre @ j # post
        \<and> (\<forall>i\<in>set pre. \<exists>p. page_result srv self None i = Inr p)
        \<and> page_result srv self None j = Inl e"
  then have eq: "download_all_data srv sched self w =
     (Inl e,
      w\<lparr>requests_log := requests_log w @ sent self None 0 # map (sent self None) (pre @ j # post),
        db_calls := db_calls w @ persist ''update'' vs0
          @ concat (map (\<lambda>i. page_writes ''init'' (page_result srv self None i)) (pre @ j # post))\<rparr>)"
    using download_all_data_task_error [where srv = srv and self = self and sched = sched
        and total_results = total_results and pre = pre and j = j and post = post and e = e
        and w = w and ?d0.0 = d0 and ?vs0.0 = vs0]
    by blast
  show "fst (download_all_data srv sched self w) = Inl e"
    by (simp add: eq)
  show "db_calls (snd (download_all_data srv sched self w))
          = db_calls w @ persist ''update'' vs0
              @ concat (map (\<lambda>i. page_writes ''init'' (page_result srv self None i))
                          (pre @ j # post))"
    by (simp add: eq)
  show "files (snd (download_all_data srv sched self w)) = files w"
    by (simp add: eq)
  show "\<forall>i\<in>set pre. \<forall>d vs. page_result srv self None i = Inr (d, vs) \<and> vs \<noteq> [] \<longrightarrow>
            InsertMany ''cve'' vs \<in> set (db_calls (snd (download_all_data srv sched self w)))"
  proof (intro ballI allI impI)
    fix i d vs
    assume i: "i \<in> set pre" and "page_result srv self None i = Inr (d, vs) \<and> vs \<noteq> []"
    then have "page_writes ''init'' (page_result srv self None i)
                 = [InsertMany ''cve'' vs, UpdateStatus ''nvd'']"
      by (simp add: page_writes_insert)
    with i show "InsertMany ''cve'' vs \<in> set (db_calls (snd (download_all_data srv sched self w)))"
      by (force simp: eq)
  qed
qed

lemma failing_source_ok:
  "i \<noteq> bad \<Longrightarrow> page_result (failing_source bad st (cve_page n ident)) self None i =
     Inr (cve_page n ident, [PyDict [(''id'', PyStr ident)]])"
  by (simp add: page_result_def failing_source_def make_request_limited_def cve_page_def
      extract_cves_def py_get_def py_iter_def bind_err_def build_request_def build_params_def)

lemma failing_source_bad:
  "st \<noteq> 200 \<Longrightarrow> page_result (failing_source bad st body) self None bad =
     Inl (HttpError st (full_url self bad None))"
  by (simp add: page_result_def failing_source_def make_request_limited_def bind_err_def
      build_request_def build_params_def)

theorem failed_fetch_fails_run_witness:
  "fst (download_all_data (failing_source 4000 500 (cve_page 5000 ''CVE-1'')) id
          default_handler empty_world)
     = Inl (HttpError 500 (full_url default_handler 4000 None))
   \<and> db_calls (snd (download_all_data (failing_source 4000 500 (cve_page 5000 ''CVE-1'')) id
          default_handler empty_world))
     = [BulkWrite ''cve'' [PyDict [(''id'', PyStr ''CVE-1'')]], UpdateStatus ''nvd'',
        InsertMany ''cve'' [PyDict [(''id'', PyStr ''CVE-1'')]], UpdateStatus ''nvd'']"
  using failed_fetch_fails_run [where srv = "failing_source 4000 500 (cve_page 5000 ''CVE-1'')"
      and self = "default_handler" and sched = id and w = empty_world
      and e = "HttpError 500 (full_url default_handler 4000 None)"
      and ?d0.0 = "cve_page 5000 ''CVE-1''" and ?vs0.0 = "[PyDict [(''id'', PyStr ''CVE-1'')]]"
      and total_results = 5000 and pre = "[2000]" and j = 4000 and post = "[]"]
  by (simp add: failing_source_ok failing_source_bad cve_page_total tasks_5000 page_writes_def
      persist_def lower_step default_handler_def init_fields_def no_config_def get_or_def empty_world_def)

subsection \<open>The checkpoint\<close>

lemma get_updates_db_calls:
  assumes "window_start now_utc last_hours last_update_time = Inr s"
  shows "db_calls (snd (get_updates srv self last_update_time now_utc last_hours w))
           = db_calls w
               @ page_writes ''update'' (page_result srv self (Some (window_params s now_utc)) 0)"
  using assms
  by (simp add: get_updates_def make_request_eq write2json_def split: sum.splits)

lemma download_all_data_db_calls:
  assumes "page_result srv self None 0 = Inr (d0, vs0)"
    and "bind_err (py_get d0 ''totalResults'' (PyInt 0)) as_int = Inr total_results"
    and "results_per_page self \<noteq> 0" and "0 < max_threads self"
  shows "db_calls (snd (download_all_data srv sched self w))
           = db_calls w @ page_writes ''update'' (page_result srv self None 0)
               @ concat (map (\<lambda>i. page_writes ''init'' (page_result srv self None i))
                   (sched (task_start_indices (num_pages total_results (results_per_page self))
                             (results_per_page self))))
               @ (case fst (download_all_data srv sched self w) of
                    Inl e \<Rightarrow> []
                  | Inr u \<Rightarrow> [EnsureIndexOnId ''cve'' ''id''])"
  by (simp add: download_all_data_eq [OF assms] assms(1) page_writes_def Let_def write2json_def
      split: sum.splits)

lemma cve_page_vulnerabilities:
  "py_get (cve_page n ident) ''vulnerabilities'' (PyList [])
     = Inr (PyList [PyDict [(''cve'', PyDict [(''id'', PyStr ident)])]])"
  by (simp add: cve_page_def py_get_def)

lemma cve_page_total_get:
  "py_get (cve_page n ident) ''totalResults'' (PyInt 0) = Inr (PyInt n)"
  by (simp add: cve_page_def py_get_def)

lemma default_handler_fields:
  "results_per_page default_handler = 2000" "max_threads default_handler = 10"
  "save_data default_handler = False"
  by (simp_all add: default_handler_def init_fields_def no_config_def get_or_def)

lemma empty_world_fields:
  "requests_log empty_world = []" "db_calls empty_world = []" "files empty_world = []"
  by (simp_all add: empty_world_def)

lemma mset_concat_map:
  "mset (concat (map f xs)) = sum_mset (image_mset (\<lambda>x. mset (f x)) (mset xs))"
  by (induction xs) simp_all

lemma download_all_data_db_calls_mset:
  assumes "page_result srv self None 0 = Inr (d0, vs0)"
    and "bind_err (py_get d0 ''totalResults'' (PyInt 0)) as_int = Inr total_results"
    and "results_per_page self \<noteq> 0" and "0 < max_threads self"
  shows "mset (db_calls (snd (download_all_data srv sched self w)))
           = mset (db_calls w) + mset (page_writes ''update'' (page_result srv self None 0))
               + sum_mset (image_mset (\<lambda>i. mset (page_writes ''init'' (page_result srv self None i)))
                   (mset (sched (task_start_indices
                             (num_pages total_results (results_per_page self))
                             (results_per_page self)))))
               + mset (case fst (download_all_data srv sched self w) of
                         Inl e \<Rightarrow> []
                       | Inr u \<Rightarrow> [EnsureIndexOnId ''cve'' ''id''])"
  by (simp only: download_all_data_db_calls [OF assms] mset_append mset_concat_map
      add.assoc)

text \<open>
  C2, as amended. The checkpoint is written by \<open>make_request\<close>: one status update for
  the source follows the store write of each fetched page that holds at least one
  record. A full load writes it once for each such page, the seed page included, also
  when a later page fails the run; an incremental sync writes it once when its page
  holds records, and not at all when the page is empty or the fetch fails. Nothing else
  in a run writes the checkpoint. The call names the source only; no window end is
  passed. The store calls of a full load are counted without their order.
\<close>

theorem checkpoint_written_per_page:
  "db_calls (snd (make_request srv self step i cp w))
     = db_calls w @ page_writes step (page_result srv self cp i)
   \<and> page_writes step (Inl e) = []
   \<and> page_writes step (Inr (data, [])) = []
   \<and> (vs \<noteq> [] \<longrightarrow>
        page_writes step (Inr (data, vs))
          = [if lower step = ''init'' then InsertMany ''cve'' vs else BulkWrite ''cve'' vs,
             UpdateStatus ''nvd''])
   \<and> (window_start now_utc last_hours last_update_time = Inr s \<longrightarrow>
        db_calls (snd (get_updates srv self last_update_time now_utc last_hours w))
          = db_calls w
              @ page_writes ''update'' (page_result srv self (Some (window_params s now_utc)) 0))
   \<and> (page_result srv self None 0 = Inr (d0, vs0)
        \<and> bind_err (py_get d0 ''totalResults'' (PyInt 0)) as_int = Inr total_results
        \<and> results_per_page self \<noteq> 0 \<and> 0 < max_threads self \<longrightarrow>
        mset (db_calls (snd (download_all_data srv sched self w)))
          = mset (db_calls w) + mset (page_writes ''update'' (page_result srv self None 0))
              + sum_mset (image_mset
                  (\<lambda>i. mset (page_writes ''init'' (page_result srv self None i)))
                  (mset (sched (task_start_indices
                            (num_pages total_results (results_per_page self))
                            (results_per_page self)))))
              + mset (case fst (download_all_data srv sched self w) of
                        Inl e \<Rightarrow> []
                      | Inr u \<Rightarrow> [EnsureIndexOnId ''cve'' ''id'']))"
proof (intro conjI impI)
  show "db_calls (snd (make_request srv self step i cp w))
     = db_calls w @ page_writes step (page_result srv self cp i)"
    by (simp add: make_request_eq)
  show "page_writes step (Inl e) = []"
    by (simp add: page_writes_def)
  show "page_writes step (Inr (data, [])) = []"
    by (simp add: page_writes_def persist_def)
next
  assume "vs \<noteq> []"
  then show "page_writes step (Inr (data, vs))
          = [if lower step = ''init'' then InsertMany ''cve'' vs else BulkWrite ''cve'' vs,
             UpdateStatus ''nvd'']"
    by (simp add: page_writes_def persist_def)
next
  assume "window_start now_utc last_hours last_update_time = Inr s"
  then show "db_calls (snd (get_updates srv self last_update_time now_utc last_hours w))
          = db_calls w
              @ page_writes ''update'' (page_result srv self (Some (window_params s now_utc)) 0)"
    by (rule get_updates_db_calls)
next
  assume "page_result srv self None 0 = Inr (d0, vs0)
        \<and> bind_err (py_get d0 ''totalResults'' (PyInt 0)) as_int = Inr total_results
        \<and> results_per_page self \<noteq> 0 \<and> 0 < max_threads self"
  then show "mset (db_calls (snd (download_all_data srv sched self w)))
          = mset (db_calls w) + mset (page_writes ''update'' (page_result srv self None 0))
              + sum_mset (image_mset
                  (\<lambda>i. mset (page_writes ''init'' (page_result srv self None i)))
                  (mset (sched (task_start_indices
                            (num_pages total_results (results_per_page self))
                            (results_per_page self)))))
              + mset (case fst (download_all_data srv sched self w) of
                        Inl e \<Rightarrow> []
                      | Inr u \<Rightarrow> [EnsureIndexOnId ''cve'' ''id''])"
    using download_all_data_db_calls_mset [where srv = srv and self = self and sched = sched
        and total_results = total_results and w = w and ?d0.0 = d0 and ?vs0.0 = vs0]
    by blast
qed

theorem checkpoint_written_per_page_witness:
  "mset (db_calls (snd (download_all_data (constant_source (cve_page 5000 ''CVE-1'')) id
      default_handler empty_world)))
     = mset [BulkWrite ''cve'' [PyDict [(''id'', PyStr ''CVE-1'')]], UpdateStatus ''nvd'',
        InsertMany ''cve'' [PyDict [(''id'', PyStr ''CVE-1'')]], UpdateStatus ''nvd'',
        InsertMany ''cve'' [PyDict [(''id'', PyStr ''CVE-1'')]], UpdateStatus ''nvd'',
        EnsureIndexOnId ''cve'' ''id'']
   \<and> db_calls (snd (get_updates (constant_source (cve_page 5000 ''CVE-1'')) default_handler
        None 1700000000000000 None empty_world))
     = [BulkWrite ''cve'' [PyDict [(''id'', PyStr ''CVE-1'')]], UpdateStatus ''nvd'']"
proof -
  have ok: "fst (download_all_data (constant_source (cve_page 5000 ''CVE-1'')) id
      default_handler empty_world) = Inr ()"
    by (simp add: download_all_data_def make_request_eq run_tasks_eq page_result_cve_page
        cve_page_total_get as_int_def tasks_5000 cve_page_vulnerabilities py_iter_def
        bind_err_def default_handler_def init_fields_def no_config_def get_or_def)
  show ?thesis
    using checkpoint_written_per_page [where srv = "constant_source (cve_page 5000 ''CVE-1'')"
      and self = default_handler and sched = id and w = empty_world
      and ?d0.0 = "cve_page 5000 ''CVE-1''" and ?vs0.0 = "[PyDict [(''id'', PyStr ''CVE-1'')]]"
      and total_results = 5000 and now_utc = 1700000000000000 and last_hours = None
      and last_update_time = None and s = 1699913600000000
      and vs = "[PyDict [(''id'', PyStr ''CVE-1'')]]" and step = "''update''" and i = 0
      and cp = None and e = TypeError and data = PyNone]
    by (simp add: ok page_result_cve_page cve_page_total tasks_5000 window_start_example
        page_writes_def persist_def lower_step default_handler_fields empty_world_fields)
qed

text \<open>
  The claim as stated fails in each of its parts. A full load whose third page fails
  ends with the \<open>HttpError\<close> and has updated the status on the way, so the checkpoint is
  written in a full load, and in a run that does not complete. An incremental sync
  whose page is empty succeeds and makes no store call, so it does not set the
  checkpoint to the window's end.
\<close>

theorem full_load_checkpoint_counterexample:
  "fst (download_all_data (failing_source 4000 500 (cve_page 5000 ''CVE-1'')) id
          default_handler empty_world)
     = Inl (HttpError 500 (full_url default_handler 4000 None))
   \<and> UpdateStatus ''nvd'' \<in> set (db_calls (snd (download_all_data
         (failing_source 4000 500 (cve_page 5000 ''CVE-1'')) id default_handler empty_world)))
   \<and> get_updates (constant_source empty_page) default_handler None 1700000000000000 None
        empty_world
     = (Inr (),
        empty_world\<lparr>requests_log :=
          [sent default_handler (Some (window_params 1699913600000000 1700000000000000)) 0]\<rparr>)"
proof -
  have run: "download_all_data (failing_source 4000 500 (cve_page 5000 ''CVE-1'')) id
               default_handler empty_world
     = (Inl (HttpError 500 (full_url default_handler 4000 None)),
        empty_world\<lparr>requests_log := requests_log empty_world @ sent default_handler None 0
            # map (sent default_handler None) ([2000] @ 4000 # []),
          db_calls := db_calls empty_world
            @ persist ''update'' [PyDict [(''id'', PyStr ''CVE-1'')]]
            @ concat (map (\<lambda>i. page_writes ''init''
                 (page_result (failing_source 4000 500 (cve_page 5000 ''CVE-1''))
                    default_handler None i)) ([2000] @ 4000 # []))\<rparr>)"
    by (rule download_all_data_task_error [where ?d0.0 = "cve_page 5000 ''CVE-1''"
          and total_results = 5000])
       (simp_all add: failing_source_ok failing_source_bad cve_page_total
          default_handler_fields tasks_5000)
  have empty: "page_result (constant_source empty_page) default_handler cp 0
                 = Inr (empty_page, [])" for cp
    by (simp add: page_result_def constant_source_def make_request_limited_def empty_page_def
        extract_cves_def py_get_def py_iter_def bind_err_def)
  show ?thesis
    by (simp add: run persist_def lower_step get_updates_def window_start_example
        make_request_eq empty page_writes_def default_handler_fields empty_world_fields)
qed

subsection \<open>The page count of a full load\<close>

text \<open>
  C8. A full load whose seed fetch reports \<open>totalResults \<ge> 0\<close>, with
  \<open>resultsPerPage > 0\<close>, works with the page count \<open>ceil(totalResults / resultsPerPage)\<close>:
  after the seed request it sends one request for each further page of that count.
  5000 results at 2000 per page are 3 pages, 2 of them fetched after the seed fetch.
\<close>

theorem full_load_page_count:
  assumes seed: "page_result srv self None 0 = Inr (d0, vs0)"
    and tot: "bind_err (py_get d0 ''totalResults'' (PyInt 0)) as_int = Inr total_results"
    and nonneg: "0 \<le> total_results"
    and rpp: "0 < results_per_page self" and thr: "0 < max_threads self"
    and perm: "mset (sched (task_start_indices
                  \<lceil>real_of_int total_results / real_of_int (results_per_page self)\<rceil>
                  (results_per_page self)))
               = mset (task_start_indices
                  \<lceil>real_of_int total_results / real_of_int (results_per_page self)\<rceil>
                  (results_per_page self))"
  shows "num_pages total_results (results_per_page self)
           = \<lceil>real_of_int total_results / real_of_int (results_per_page self)\<rceil>
         \<and> requests_log (snd (download_all_data srv sched self w))
           = requests_log w @ sent self None 0
               # map (sent self None)
                   (sched (task_start_indices
                      \<lceil>real_of_int total_results / real_of_int (results_per_page self)\<rceil>
                      (results_per_page self)))
         \<and> length (requests_log (snd (download_all_data srv sched self w)))
           = length (requests_log w) + 1
               + nat (\<lceil>real_of_int total_results / real_of_int (results_per_page self)\<rceil> - 1)
         \<and> num_pages 5000 2000 = 3"
proof -
  let ?n = "\<lceil>real_of_int total_results / real_of_int (results_per_page self)\<rceil>"
  let ?ts = "task_start_indices ?n (results_per_page self)"
  from rpp have nz: "results_per_page self \<noteq> 0" by simp
  have n: "num_pages total_results (results_per_page self) = ?n"
    using rpp by (rule num_pages_ceiling)
  have log: "requests_log (snd (download_all_data srv sched self w))
           = requests_log w @ sent self None 0 # map (sent self None) (sched ?ts)"
    using download_all_data_log [OF seed tot nz thr, of sched w] by (simp only: n)
  have "length (sched ?ts) = length ?ts"
    using perm by (rule mset_eq_length)
  then have len: "length (sched ?ts) = nat (?n - 1)"
    by (simp add: task_start_indices_def)
  have ex: "num_pages 5000 2000 = 3"
    by (simp add: num_pages_def)
  show ?thesis
    using n log len ex by simp
qed

theorem full_load_page_count_witness:
  "num_pages 5000 2000 = 3
   \<and> map (\<lambda>p. map_of (req_params (snd p)) ''startIndex'')
        (requests_log (snd (download_all_data (constant_source (cve_page 5000 ''CVE-1'')) id
           default_handler empty_world)))
      = [Some (PyInt 0), Some (PyInt 2000), Some (PyInt 4000)]
   \<and> length (requests_log (snd (download_all_data (constant_source (cve_page 5000 ''CVE-1''))
        id default_handler empty_world))) = 1 + 2"
proof -
  have c: "\<lceil>real_of_int 5000 / real_of_int 2000\<rceil> = (3::int)"
    using num_pages_ceiling [of 2000 5000] by (simp add: num_pages_def)
  have t: "task_start_indices 3 2000 = [2000, 4000]"
    by (simp add: task_start_indices_def upto_rec1)
  show ?thesis
    using full_load_page_count [where srv = "constant_source (cve_page 5000 ''CVE-1'')"
        and self = default_handler and ?d0.0 = "cve_page 5000 ''CVE-1''"
        and ?vs0.0 = "[PyDict [(''id'', PyStr ''CVE-1'')]]" and total_results = 5000
        and sched = id and w = empty_world]
    by (simp add: page_result_cve_page cve_page_total default_handler_fields c t
        empty_world_fields sent_def build_request_def build_params_def)
qed

end
